theory Spec2Isabelle
  imports Complex_Main "HOL-Library.AList" "HOL-Library.Sublist"
begin

section \<open>Python values shared by the modules\<close>

text \<open>
  A Python float is a finite number, one of the two infinities, or not-a-number. The
  finite ones are read as reals: the claims below only compare and average them, and the
  order of the floats is the order of the reals they denote.
\<close>

datatype pyfloat = NaN | NegInf | Finite real | PosInf

text \<open>The comparison \<^verbatim>\<open>a < b\<close> of two floats; every comparison with not-a-number is false.\<close>

fun float_lt :: "pyfloat \<Rightarrow> pyfloat \<Rightarrow> bool" where
  "float_lt NaN b = False"
| "float_lt a NaN = False"
| "float_lt NegInf NegInf = False"
| "float_lt NegInf b = True"
| "float_lt (Finite a) (Finite b) = (a < b)"
| "float_lt (Finite a) PosInf = True"
| "float_lt (Finite a) NegInf = False"
| "float_lt PosInf b = False"

text \<open>Unary minus, as in \<^verbatim>\<open>- matthews_corrcoef(...)\<close>.\<close>

fun float_neg :: "pyfloat \<Rightarrow> pyfloat" where
  "float_neg NaN = NaN"
| "float_neg NegInf = PosInf"
| "float_neg (Finite a) = Finite (- a)"
| "float_neg PosInf = NegInf"

text \<open>The exceptions the modelled code raises or lets through, with their message.\<close>

datatype pyerror =
    ValueError string
  | RuntimeError string
  | KeyError string
  | IndexError string
  | UnboundLocalError string
  | LibraryError string

text \<open>The values a hyperparameter can take, and a dict from names to them in insertion order.\<close>

datatype pyval = PStr string | PFloat real | PInt int | PBool bool

type_synonym config = "(string \<times> pyval) list"

text \<open>
  A path is the list of its components, so that \<^verbatim>\<open>os.path.join(d, name)\<close> is
  \<open>d @ [name]\<close>.
\<close>

type_synonym path = "string list"

text \<open>\<^verbatim>\<open>del d[k]\<close>: raises KeyError when the key is absent.\<close>

definition dict_del :: "string \<Rightarrow> config \<Rightarrow> pyerror + config" where
  "dict_del k d =
     (case map_of d k of
        None \<Rightarrow> Inl (KeyError k)
      | Some v \<Rightarrow> Inr (AList.delete k d))"

section \<open>fingerprint\_evaluation.py: the classical hyperparameter search\<close>

definition REGRESSION_TASKS :: "string list" where
  "REGRESSION_TASKS = [''c-binding'', ''nc-binding'', ''nc-cpp'']"

definition CLASSIFICATION_TASKS :: "string list" where
  "CLASSIFICATION_TASKS = [''c-sol'', ''c-cpp'']"

definition TASKS :: "string list" where
  "TASKS = REGRESSION_TASKS @ CLASSIFICATION_TASKS"

definition MULTI_INSTANCE_TASKS :: "string list" where
  "MULTI_INSTANCE_TASKS = [''c-binding'', ''nc-binding'']"

text \<open>
  What one trial gets from outside the module: the values the Optuna trial proposes
  (by parameter name; the search ranges are arguments to the library and do not appear),
  whether \<^verbatim>\<open>model.fit\<close> and \<^verbatim>\<open>model.predict\<close> return or raise, and the values
  scikit-learn's two validation scores take on the predictions.
\<close>

record trial =
  suggest_float :: "string \<Rightarrow> real"
  suggest_int :: "string \<Rightarrow> int"
  suggest_categorical :: "string \<Rightarrow> pyval"
  fit_predict :: "pyerror option"
  root_mean_squared_error :: pyfloat
  matthews_corrcoef :: pyfloat

text \<open>
  The globals \<^verbatim>\<open>counter\<close> and \<^verbatim>\<open>prev_loss\<close>, and the writes made by
  \<^verbatim>\<open>json.dump\<close>, oldest first: each is the file written and the dict written to it.
  The content of a file is the last write to it.
\<close>

record hpo_state =
  counter :: nat
  prev_loss :: pyfloat
  dumps :: "(path \<times> config) list"

text \<open>
  Lines 197 to 244: the dict \<^verbatim>\<open>config\<close> of the chosen model family. For a family the
  chain does not know, \<^verbatim>\<open>config\<close> stays unbound (\<open>None\<close>).
\<close>

definition sample_config :: "string \<Rightarrow> trial \<Rightarrow> config option" where
  "sample_config model_algorithm t =
     (if model_algorithm = ''svm'' then Some
        [(''kernel'', PStr ''linear''),
         (''C'', PFloat (suggest_float t ''C'')),
         (''epsilon'', PFloat (suggest_float t ''epsilon'')),
         (''max_iter'', PInt 1000000)]
      else if model_algorithm = ''rf'' then Some
        [(''n_estimators'', PInt (suggest_int t ''n_estimators'')),
         (''max_depth'', PInt (suggest_int t ''max_depth'')),
         (''min_impurity_decrease'', PFloat (suggest_float t ''min_impurity_decrease'')),
         (''warm_start'', suggest_categorical t ''warm_start''),
         (''ccp_alpha'', PFloat (suggest_float t ''ccp_alpha'')),
         (''n_jobs'', PInt 8)]
      else if model_algorithm = ''xgboost'' then Some
        [(''learning_rate'', PFloat (suggest_float t ''learning_rate'')),
         (''n_estimators'', PInt (suggest_int t ''n_estimators'')),
         (''subsample'', PFloat (suggest_float t ''subsample'')),
         (''max_depth'', PInt (suggest_int t ''max_depth'')),
         (''min_impurity_decrease'', PFloat (suggest_float t ''min_impurity_decrease'')),
         (''warm_start'', suggest_categorical t ''warm_start''),
         (''ccp_alpha'', PFloat (suggest_float t ''ccp_alpha''))]
      else if model_algorithm = ''knn'' then Some
        [(''n_neighbors'', PInt (suggest_int t ''n_estimators'')),
         (''weights'', suggest_categorical t ''weights''),
         (''p'', PInt 1),
         (''n_jobs'', PInt 8)]
      else None)"

text \<open>The estimator classes, and an estimator built from the keyword arguments it was given.\<close>

datatype estimator_class =
    SVR | RandomForestRegressor | GradientBoostingRegressor | KNeighborsRegressor
  | SVC | RandomForestClassifier | GradientBoostingClassifier | KNeighborsClassifier

type_synonym estimator = "estimator_class \<times> config"

definition not_supported :: "string \<Rightarrow> pyerror" where
  "not_supported model_algorithm =
     ValueError (''Model architecture: '' @ model_algorithm @ '' is not currently supported'')"

text \<open>
  Lines 246 to 268: the estimator for the task kind and family, together with
  \<^verbatim>\<open>config\<close> as the branch leaves it (the classification branch of the support-vector
  family deletes \<^verbatim>\<open>epsilon\<close> from it). An unbound \<^verbatim>\<open>config\<close> is only reached by the
  two \<^verbatim>\<open>else\<close> branches, which raise without reading it.
\<close>

definition build_model :: "string \<Rightarrow> string \<Rightarrow> config option \<Rightarrow> pyerror + estimator \<times> config" where
  "build_model model_algorithm task cfg =
     (case cfg of
        None \<Rightarrow> Inl (not_supported model_algorithm)
      | Some config \<Rightarrow>
          if task \<in> set REGRESSION_TASKS then
            (if model_algorithm = ''svm'' then Inr ((SVR, config), config)
             else if model_algorithm = ''rf'' then Inr ((RandomForestRegressor, config), config)
             else if model_algorithm = ''xgboost'' then
               Inr ((GradientBoostingRegressor, config), config)
             else if model_algorithm = ''knn'' then Inr ((KNeighborsRegressor, config), config)
             else Inl (not_supported model_algorithm))
          else
            (if model_algorithm = ''svm'' then
               (case dict_del ''epsilon'' config of
                  Inl e \<Rightarrow> Inl e
                | Inr config' \<Rightarrow> Inr ((SVC, config'), config'))
             else if model_algorithm = ''rf'' then Inr ((RandomForestClassifier, config), config)
             else if model_algorithm = ''xgboost'' then
               Inr ((GradientBoostingClassifier, config), config)
             else if model_algorithm = ''knn'' then Inr ((KNeighborsClassifier, config), config)
             else Inl (not_supported model_algorithm)))"

text \<open>Lines 273 to 276: the loss of a trial whose fit and predict returned.\<close>

definition trial_loss :: "string \<Rightarrow> trial \<Rightarrow> pyfloat" where
  "trial_loss task t =
     (if task \<in> set REGRESSION_TASKS then root_mean_squared_error t
      else float_neg (matthews_corrcoef t))"

text \<open>
  The objective of one trial (lines 194 to 282). It returns the loss or the exception it
  raises, and the state it leaves behind in both cases.
\<close>

definition optim_objective ::
  "string \<Rightarrow> string \<Rightarrow> path \<Rightarrow> trial \<Rightarrow> hpo_state \<Rightarrow> (pyerror + pyfloat) \<times> hpo_state" where
  "optim_objective model_algorithm task log_dir t st =
     (case build_model model_algorithm task (sample_config model_algorithm t) of
        Inl e \<Rightarrow> (Inl e, st)
      | Inr (model, config) \<Rightarrow>
          let st1 = st\<lparr>counter := counter st + 1\<rparr> in
          (case fit_predict t of
             Some e \<Rightarrow> (Inl e, st1)
           | None \<Rightarrow>
               let loss = trial_loss task t in
               if float_lt loss (prev_loss st1) then
                 (Inr loss,
                  st1\<lparr>prev_loss := loss,
                      dumps := dumps st1 @
                        [(log_dir @ [''best_model.json''],
                          AList.update ''model'' (PStr model_algorithm) config)]\<rparr>)
               else (Inr loss, st1)))"

text \<open>
  \<^verbatim>\<open>study.optimize(objective, n_trials=n)\<close>, called as the source calls it, with no
  \<^verbatim>\<open>catch\<close> argument and no try around it: the objective runs on one trial after the
  other, and an exception it raises leaves the loop and the caller.
\<close>

fun run_trials ::
  "('t \<Rightarrow> 's \<Rightarrow> (pyerror + pyfloat) \<times> 's) \<Rightarrow> 't list \<Rightarrow> 's \<Rightarrow> pyerror option \<times> 's" where
  "run_trials objective [] st = (None, st)"
| "run_trials objective (t # ts) st =
     (case objective t st of
        (Inl e, st') \<Rightarrow> (Some e, st')
      | (Inr loss, st') \<Rightarrow> run_trials objective ts st')"

definition optimize ::
  "('t \<Rightarrow> 's \<Rightarrow> (pyerror + pyfloat) \<times> 's) \<Rightarrow> nat \<Rightarrow> (nat \<Rightarrow> 't) \<Rightarrow> 's \<Rightarrow> pyerror option \<times> 's" where
  "optimize objective n_trials oracle st = run_trials objective (map oracle [0..<n_trials]) st"

text \<open>Lines 189 to 285. \<open>oracle i\<close> is what trial number \<open>i\<close> gets from outside.\<close>

definition run_hpo ::
  "string \<Rightarrow> string \<Rightarrow> path \<Rightarrow> (nat \<Rightarrow> trial) \<Rightarrow> hpo_state \<Rightarrow> pyerror option \<times> hpo_state" where
  "run_hpo model_algorithm task log_dir oracle st =
     optimize (optim_objective model_algorithm task log_dir) 10 oracle
       (st\<lparr>counter := 0, prev_loss := PosInf\<rparr>)"

text \<open>
  Two notions the statements about the search use. \<open>improve p l\<close> is the held loss after
  the test of line 277 on a held loss \<open>p\<close> and an observed loss \<open>l\<close>;
  \<open>best_model_json\<close> is the dict that lines 279 and 280 write for a trial.
\<close>

definition improve :: "pyfloat \<Rightarrow> pyfloat \<Rightarrow> pyfloat" where
  "improve p l = (if float_lt l p then l else p)"

definition best_model_json :: "string \<Rightarrow> string \<Rightarrow> trial \<Rightarrow> config" where
  "best_model_json model_algorithm task t =
     (case build_model model_algorithm task (sample_config model_algorithm t) of
        Inl e \<Rightarrow> []
      | Inr (model, config) \<Rightarrow> AList.update ''model'' (PStr model_algorithm) config)"

section \<open>train.py: the neural search\<close>












section \<open>metrics.py: the registry of metrics\<close>

text \<open>
  An object of class \<^verbatim>\<open>Metrics\<close>: the dict of its scoring functions, in insertion order,
  and its two flags. The scoring functions are left abstract.
\<close>

record 'f Metrics =
  metrics :: "(string \<times> 'f) list"
  multilabel :: bool
  token :: bool

text \<open>\<^verbatim>\<open>Metrics()\<close>: the constructor's empty dict and the class attributes.\<close>

definition Metrics_init :: "'f Metrics" where
  "Metrics_init = \<lparr>metrics = [], multilabel = False, token = False\<rparr>"

definition add_metric :: "'f Metrics \<Rightarrow> string \<Rightarrow> 'f \<Rightarrow> 'f Metrics" where
  "add_metric self name metric = self\<lparr>metrics := AList.update name metric (metrics self)\<rparr>"

text \<open>
  The loop of \<^verbatim>\<open>get_metrics\<close> (lines 29 to 35). The ValueError is given by the first of
  its three arguments; the other two list the registered names.
\<close>

fun get_metrics_loop :: "'f Metrics \<Rightarrow> string list \<Rightarrow> 'f Metrics \<Rightarrow> pyerror + 'f Metrics" where
  "get_metrics_loop self [] m = Inr m"
| "get_metrics_loop self (name # names) m =
     (case map_of (metrics self) name of
        Some f \<Rightarrow> get_metrics_loop self names (add_metric m name f)
      | None \<Rightarrow> Inl (ValueError (''Metric: '' @ name @ '' not supported.'')))"

definition get_metrics :: "'f Metrics \<Rightarrow> string list \<Rightarrow> bool \<Rightarrow> bool \<Rightarrow> pyerror + 'f Metrics" where
  "get_metrics self names ml tok =
     get_metrics_loop self names (Metrics_init\<lparr>multilabel := ml, token := tok\<rparr>)"

section \<open>fingerprint\_evaluation.py: representations\<close>

text \<open>
  A representation is the list of floats that \<^verbatim>\<open>tolist()\<close> returns, read as reals. The
  mean over no rows at all is a list of not-a-number; it stands as \<open>NaNs\<close>.
\<close>

datatype repr = NaNs | Vec "real list"

text \<open>\<^verbatim>\<open>rows.mean(0)\<close> of a matrix given by its rows: the mean of each column.\<close>

definition mean0 :: "real list list \<Rightarrow> repr" where
  "mean0 rows =
     (case rows of
        [] \<Rightarrow> NaNs
      | r # rs \<Rightarrow> Vec (map (\<lambda>x. x / real (length rows)) (foldl (map2 (+)) r rs)))"

text \<open>\<^verbatim>\<open>[xs[i:i+n] for i in range(0, len(xs), n)]\<close>, for a batch size \<open>n > 0\<close>.\<close>

function batched :: "nat \<Rightarrow> 'a list \<Rightarrow> 'a list list" where
  "batched n xs = (if n = 0 \<or> xs = [] then [] else take n xs # batched n (drop n xs))"
  by pat_completeness auto
termination
  by (relation "measure (\<lambda>(n, xs). length xs)") auto

declare batched.simps [simp del]

text \<open>
  An encoder with its tokenizer, as the pooling loops use them. For a batch of strings,
  \<open>attention_mask enc batch i\<close> is row \<open>i\<close> of the tokenizer's attention mask and
  \<open>last_hidden_state enc batch i\<close> is row \<open>i\<close> of the model's output: one vector for each
  token position. Both tensors have one row for each string of the batch.
\<close>

record lm_encoder =
  attention_mask :: "string list \<Rightarrow> nat \<Rightarrow> nat list"
  last_hidden_state :: "string list \<Rightarrow> nat \<Rightarrow> real list list"

text \<open>
  The pooling of the peptide encoders, lines 123 to 125 and again 153 to 155:
  \<^verbatim>\<open>length = mask[i].sum()\<close>, then \<^verbatim>\<open>vector[i, :length].mean(0)\<close>.
\<close>

definition pool_peptide :: "nat list \<Rightarrow> real list list \<Rightarrow> repr" where
  "pool_peptide mask_i vector_i = (let len = sum_list mask_i in mean0 (take len vector_i))"

text \<open>The pooling of the protein encoder, line 183: \<^verbatim>\<open>vector[i, :len(seq)].mean(0)\<close>.\<close>

definition pool_protein :: "string \<Rightarrow> real list list \<Rightarrow> repr" where
  "pool_protein seq vector_i = mean0 (take (length seq) vector_i)"

text \<open>
  The mean over the positions whose attention mask is 1, whatever their place in the row:
  the pooling that the specification describes.
\<close>

definition masked_mean :: "nat list \<Rightarrow> real list list \<Rightarrow> repr" where
  "masked_mean mask_i vector_i = mean0 (map snd (filter (\<lambda>(m, v). m = 1) (zip mask_i vector_i)))"

text \<open>Lines 111 to 125 and 141 to 155 for one dataset: batches, then one pooled vector for each row.\<close>

definition lm_fingerprints :: "lm_encoder \<Rightarrow> nat \<Rightarrow> string list \<Rightarrow> repr list" where
  "lm_fingerprints enc batch_size smiles =
     concat (map (\<lambda>batch.
         map (\<lambda>i. pool_peptide (attention_mask enc batch i) (last_hidden_state enc batch i))
           [0..<length batch])
       (batched batch_size smiles))"

subsection \<open>Proteins: the persisted store\<close>

text \<open>
  The JSON files of representations by path (absent, or the list that \<^verbatim>\<open>json.load\<close>
  reads from it), and how many times the pretrained protein encoder has been loaded.
\<close>

record cache_state =
  store :: "path \<Rightarrow> repr list option"
  encoder_loads :: nat

text \<open>Lines 161 to 186. The encoder is the library's; \<open>encoder batch i\<close> is row \<open>i\<close> of its output.\<close>

definition represent_proteins ::
  "(string list \<Rightarrow> nat \<Rightarrow> real list list) \<Rightarrow> string list \<Rightarrow> path \<Rightarrow> string \<Rightarrow> cache_state
     \<Rightarrow> repr list \<times> cache_state" where
  "represent_proteins encoder sequences data_path task st =
     (let save_file = data_path @ [''prot_'' @ task @ ''.json''] in
      case store st save_file of
        Some reprs \<Rightarrow> (reprs, st)
      | None \<Rightarrow>
          let st1 = st\<lparr>encoder_loads := encoder_loads st + 1\<rparr>;
              reprs = concat (map (\<lambda>batch.
                  map (\<lambda>(i, seq). pool_protein seq (encoder batch i)) (enumerate 0 batch))
                (batched 16 sequences))
          in (reprs, st1\<lparr>store := (store st1)(save_file \<mapsto> reprs)\<rparr>))"

subsection \<open>Peptides\<close>


fun str_split :: "char \<Rightarrow> string \<Rightarrow> string list" where
  "str_split c [] = [[]]"
| "str_split c (x # xs) =
     (if x = c then [] # str_split c xs
      else (case str_split c xs of
              [] \<Rightarrow> [[x]]
            | w # ws \<Rightarrow> (x # w) # ws))"










section \<open>Example inputs\<close>

text \<open>
  Trials that return with a given loss, for either kind of task and for the neural search,
  and oracles that hand out the losses of a list in order (and the loss 1 after its end).
\<close>

definition trial_with_loss :: "real \<Rightarrow> real \<Rightarrow> trial" where
  "trial_with_loss c l =
     \<lparr>suggest_float = (\<lambda>name. c), suggest_int = (\<lambda>name. 1),
      suggest_categorical = (\<lambda>name. PBool False), fit_predict = None,
      root_mean_squared_error = Finite l, matthews_corrcoef = Finite (- l)\<rparr>"

definition oracle_of :: "real list \<Rightarrow> nat \<Rightarrow> trial" where
  "oracle_of ls i = trial_with_loss (real i) (if i < length ls then ls ! i else 1)"



text \<open>An oracle whose trial number \<open>k\<close> raises in \<^verbatim>\<open>predict\<close>, all others returning the loss 1/2.\<close>

definition failing_at :: "nat \<Rightarrow> nat \<Rightarrow> trial" where
  "failing_at k i =
     (if i = k
      then (trial_with_loss (real i) 1)
             \<lparr>fit_predict := Some (ValueError ''Expected n_neighbors <= n_samples_fit'')\<rparr>
      else trial_with_loss (real i) (1 / 2))"

text \<open>A registry of three metrics, the scoring functions standing as numbers.\<close>

definition registry :: "nat Metrics" where
  "registry = \<lparr>metrics = [(''acc'', 1), (''mse'', 2), (''rmse'', 3)], multilabel = False, token = False\<rparr>"




text \<open>
  An encoder whose hidden state at token position \<open>k\<close> is the vector \<open>[k]\<close>, on a row of
  as many positions as the string has characters, and two more for the tokens that the
  protein tokenizer puts before and after them.
\<close>

definition toy_encoder :: "string list \<Rightarrow> nat \<Rightarrow> real list list" where
  "toy_encoder batch i = map (\<lambda>k. [real k]) [0..<length (batch ! i) + 2]"


section \<open>The incumbent of a search\<close>

lemma build_model_supported:
  assumes "model_algorithm \<in> set [''svm'', ''rf'', ''xgboost'', ''knn'']"
  shows "\<exists>m c. build_model model_algorithm task (sample_config model_algorithm t) = Inr (m, c)"
  using assms by (auto simp: build_model_def sample_config_def dict_del_def)

lemma optim_objective_returns:
  assumes "model_algorithm \<in> set [''svm'', ''rf'', ''xgboost'', ''knn'']"
      and "fit_predict t = None"
  shows "optim_objective model_algorithm task log_dir t st =
           (Inr (trial_loss task t),
            st\<lparr>counter := counter st + 1,
               prev_loss := improve (prev_loss st) (trial_loss task t),
               dumps := dumps st @
                 (if float_lt (trial_loss task t) (prev_loss st)
                  then [(log_dir @ [''best_model.json''], best_model_json model_algorithm task t)]
                  else [])\<rparr>)"
proof -
  obtain m c where "build_model model_algorithm task (sample_config model_algorithm t) = Inr (m, c)"
    using build_model_supported[OF assms(1)] by blast
  then show ?thesis
    using assms(2) by (simp add: optim_objective_def Let_def improve_def best_model_json_def)
qed

lemma optim_objective_raises:
  assumes "model_algorithm \<in> set [''svm'', ''rf'', ''xgboost'', ''knn'']"
      and "fit_predict t = Some e"
  shows "optim_objective model_algorithm task log_dir t st = (Inl e, st\<lparr>counter := counter st + 1\<rparr>)"
proof -
  obtain m c where "build_model model_algorithm task (sample_config model_algorithm t) = Inr (m, c)"
    using build_model_supported[OF assms(1)] by blast
  then show ?thesis
    using assms(2) by (simp add: optim_objective_def Let_def)
qed




lemma run_trials_classical:
  assumes sup: "model_algorithm \<in> set [''svm'', ''rf'', ''xgboost'', ''knn'']"
      and ok: "\<forall>t\<in>set ts. fit_predict t = None"
  shows "fst (run_trials (optim_objective model_algorithm task log_dir) ts st) = None
       \<and> prev_loss (snd (run_trials (optim_objective model_algorithm task log_dir) ts st))
           = foldl improve (prev_loss st) (map (trial_loss task) ts)
       \<and> counter (snd (run_trials (optim_objective model_algorithm task log_dir) ts st))
           = counter st + length ts"
  using ok
proof (induction ts arbitrary: st)
  case Nil
  then show ?case by simp
next
  case (Cons t ts)
  from Cons.prems have t: "fit_predict t = None" and rest: "\<forall>t\<in>set ts. fit_predict t = None"
    by simp_all
  show ?case
    using Cons.IH[OF rest] by (simp add: optim_objective_returns[OF sup t])
qed











section \<open>The scenario of five losses\<close>

lemma upt_5: "[0..<5] = [0, 1, 2, 3, 4]"
  by (simp add: upt_rec)

lemma upt_10: "[0..<10] = [0, 1, 2, 3, 4, 5, 6, 7, 8, 9]"
  by (simp add: upt_rec)

lemma run_trials_append:
  assumes "fst (run_trials objective xs st) = None"
  shows "run_trials objective (xs @ ys) st = run_trials objective ys (snd (run_trials objective xs st))"
  using assms
proof (induction xs arbitrary: st)
  case Nil
  then show ?case by simp
next
  case (Cons x xs)
  then show ?case
    by (cases "objective x st") (auto split: sum.splits)
qed

lemma trial_loss_with_loss: "trial_loss task (trial_with_loss c l) = Finite l"
  by (simp add: trial_loss_def trial_with_loss_def)

lemma fit_predict_with_loss: "fit_predict (trial_with_loss c l) = None"
  by (simp add: trial_with_loss_def)

text \<open>
  Claim C2. A search whose first five trials return the losses 0.9, 0.5, 0.7, 0.3, 0.6 holds
  the loss 0.3 after them and has written \<^verbatim>\<open>best_model.json\<close> three times: for the
  first, the second and the fourth trial. The number of writes after 0, 1, ..., 5 trials is
  0, 1, 2, 2, 3, 3.
\<close>

theorem scenario_five_losses:
  assumes sup: "model_algorithm \<in> set [''svm'', ''rf'', ''xgboost'', ''knn'']"
      and ok: "\<forall>i<5. fit_predict (oracle i) = None
                 \<and> trial_loss task (oracle i) = Finite ([9/10, 1/2, 7/10, 3/10, 6/10] ! i)"
  shows "optimize (optim_objective model_algorithm task log_dir) 5 oracle
           (st\<lparr>counter := 0, prev_loss := PosInf\<rparr>) =
         (None, st\<lparr>counter := 5, prev_loss := Finite (3/10),
                   dumps := dumps st @
                     [(log_dir @ [''best_model.json''], best_model_json model_algorithm task (oracle 0)),
                      (log_dir @ [''best_model.json''], best_model_json model_algorithm task (oracle 1)),
                      (log_dir @ [''best_model.json''], best_model_json model_algorithm task (oracle 3))]\<rparr>)
       \<and> map (\<lambda>k. length (dumps (snd (optimize (optim_objective model_algorithm task log_dir) k oracle
                 (st\<lparr>counter := 0, prev_loss := PosInf\<rparr>))))) [0, 1, 2, 3, 4, 5]
           = map (\<lambda>j. length (dumps st) + j) [0, 1, 2, 2, 3, 3]"
proof -
  have fp: "fit_predict (oracle 0) = None" "fit_predict (oracle (Suc 0)) = None"
    "fit_predict (oracle 2) = None" "fit_predict (oracle 3) = None" "fit_predict (oracle 4) = None"
    using ok by simp_all
  have l: "trial_loss task (oracle 0) = Finite (9/10)"
    "trial_loss task (oracle (Suc 0)) = Finite (1/2)"
    "trial_loss task (oracle 2) = Finite (7/10)" "trial_loss task (oracle 3) = Finite (3/10)"
    "trial_loss task (oracle 4) = Finite (6/10)"
    using ok[rule_format, of 0] ok[rule_format, of 1] ok[rule_format, of 2]
      ok[rule_format, of 3] ok[rule_format, of 4] by simp_all
  note step = optim_objective_returns[OF sup]
  have u: "[0..<Suc 0] = [0]" "[0..<2] = [0, 1]" "[0..<3] = [0, 1, 2]" "[0..<4] = [0, 1, 2, 3]"
    by (simp_all add: upt_rec)
  have a: "optimize (optim_objective model_algorithm task log_dir) 5 oracle
           (st\<lparr>counter := 0, prev_loss := PosInf\<rparr>) =
         (None, st\<lparr>counter := 5, prev_loss := Finite (3/10),
                   dumps := dumps st @
                     [(log_dir @ [''best_model.json''], best_model_json model_algorithm task (oracle 0)),
                      (log_dir @ [''best_model.json''], best_model_json model_algorithm task (oracle 1)),
                      (log_dir @ [''best_model.json''], best_model_json model_algorithm task (oracle 3))]\<rparr>)"
    by (simp add: optimize_def upt_5 step fp l improve_def)
  have b: "map (\<lambda>k. length (dumps (snd (optimize (optim_objective model_algorithm task log_dir) k oracle
                 (st\<lparr>counter := 0, prev_loss := PosInf\<rparr>))))) [0, 1, 2, 3, 4, 5]
           = map (\<lambda>j. length (dumps st) + j) [0, 1, 2, 2, 3, 3]"
    by (simp add: optimize_def upt_5 u step fp l improve_def)
  from a b show ?thesis by simp
qed

theorem scenario_five_losses_witness:
  "optimize (optim_objective ''svm'' ''nc-cpp'' [''logs'']) 5 (oracle_of [9/10, 1/2, 7/10, 3/10, 6/10])
     \<lparr>counter = 0, prev_loss = PosInf, dumps = []\<rparr> =
   (None, \<lparr>counter = 5, prev_loss = Finite (3/10),
           dumps =
             [([''logs'', ''best_model.json''],
               [(''kernel'', PStr ''linear''), (''C'', PFloat 0), (''epsilon'', PFloat 0),
                (''max_iter'', PInt 1000000), (''model'', PStr ''svm'')]),
              ([''logs'', ''best_model.json''],
               [(''kernel'', PStr ''linear''), (''C'', PFloat 1), (''epsilon'', PFloat 1),
                (''max_iter'', PInt 1000000), (''model'', PStr ''svm'')]),
              ([''logs'', ''best_model.json''],
               [(''kernel'', PStr ''linear''), (''C'', PFloat 3), (''epsilon'', PFloat 3),
                (''max_iter'', PInt 1000000), (''model'', PStr ''svm'')])]\<rparr>)"
proof -
  have sup: "''svm'' \<in> set [''svm'', ''rf'', ''xgboost'', ''knn'']" by simp
  have ok: "\<forall>i<5. fit_predict (oracle_of [9/10, 1/2, 7/10, 3/10, 6/10] i) = None
                 \<and> trial_loss ''nc-cpp'' (oracle_of [9/10, 1/2, 7/10, 3/10, 6/10] i)
                     = Finite ([9/10, 1/2, 7/10, 3/10, 6/10] ! i)"
    by (simp add: oracle_of_def trial_loss_with_loss fit_predict_with_loss)
  have j: "best_model_json ''svm'' ''nc-cpp'' (oracle_of [9/10, 1/2, 7/10, 3/10, 6/10] i) =
      [(''kernel'', PStr ''linear''), (''C'', PFloat (real i)), (''epsilon'', PFloat (real i)),
       (''max_iter'', PInt 1000000), (''model'', PStr ''svm'')]" for i
    by (simp add: best_model_json_def build_model_def sample_config_def REGRESSION_TASKS_def
        oracle_of_def trial_with_loss_def)
  show ?thesis
    using scenario_five_losses[OF sup ok, of "[''logs'']" "\<lparr>counter = 0, prev_loss = PosInf, dumps = []\<rparr>"]
      j[of 0] j[of 1] j[of 3]
    by simp
qed


section \<open>A trial that raises\<close>

text \<open>
  Claim C3, as the code has it. When trial number \<open>k\<close> of the ten is the first whose fit or
  predict raises, the exception leaves \<^verbatim>\<open>run_hpo\<close>: no loss is observed for that trial,
  the trials after it do not run, and the state is the one the first \<open>k\<close> trials left, with
  the counter moved on by the failed trial.
\<close>

theorem raising_trial_ends_search:
  assumes sup: "model_algorithm \<in> set [''svm'', ''rf'', ''xgboost'', ''knn'']"
      and k: "k < 10"
      and ok: "\<forall>i<k. fit_predict (oracle i) = None"
      and bad: "fit_predict (oracle k) = Some e"
  shows "run_hpo model_algorithm task log_dir oracle st =
           (Some e,
            (snd (optimize (optim_objective model_algorithm task log_dir) k oracle
                    (st\<lparr>counter := 0, prev_loss := PosInf\<rparr>)))\<lparr>counter := k + 1\<rparr>)"
proof -
  let ?obj = "optim_objective model_algorithm task log_dir"
  let ?st0 = "st\<lparr>counter := 0, prev_loss := PosInf\<rparr>"
  let ?pre = "run_trials ?obj (map oracle [0..<k]) ?st0"
  have split: "map oracle [0..<10] = map oracle [0..<k] @ oracle k # map oracle [Suc k..<10]"
  proof -
    have "[0..<10] = [0..<k] @ [k..<10]"
      using k upt_add_eq_append[of 0 k "10 - k"] by simp
    also have "[k..<10] = k # [Suc k..<10]"
      using k by (simp add: upt_conv_Cons)
    finally show ?thesis by simp
  qed
  have "\<forall>t\<in>set (map oracle [0..<k]). fit_predict t = None"
    using ok by auto
  from run_trials_classical[OF sup this, of task log_dir ?st0]
  have none: "fst ?pre = None" and cnt: "counter (snd ?pre) = k"
    by simp_all
  have "run_trials ?obj (map oracle [0..<10]) ?st0
          = run_trials ?obj (oracle k # map oracle [Suc k..<10]) (snd ?pre)"
    unfolding split by (rule run_trials_append[OF none])
  also have "\<dots> = (Some e, (snd ?pre)\<lparr>counter := k + 1\<rparr>)"
    by (simp add: optim_objective_raises[OF sup bad] cnt)
  finally show ?thesis
    by (simp add: run_hpo_def optimize_def)
qed

theorem raising_trial_ends_search_witness:
  "run_hpo ''knn'' ''nc-cpp'' [''logs''] (failing_at 1) \<lparr>counter = 0, prev_loss = PosInf, dumps = []\<rparr> =
     (Some (ValueError ''Expected n_neighbors <= n_samples_fit''),
      \<lparr>counter = 2, prev_loss = Finite (1 / 2),
       dumps = [([''logs'', ''best_model.json''],
                 [(''n_neighbors'', PInt 1), (''weights'', PBool False), (''p'', PInt 1),
                  (''n_jobs'', PInt 8), (''model'', PStr ''knn'')])]\<rparr>)"
proof -
  have sup: "''knn'' \<in> set [''svm'', ''rf'', ''xgboost'', ''knn'']" by simp
  have k: "(1::nat) < 10" by simp
  have ok: "\<forall>i<1. fit_predict (failing_at 1 i) = None"
    by (simp add: failing_at_def fit_predict_with_loss)
  have bad: "fit_predict (failing_at 1 1) = Some (ValueError ''Expected n_neighbors <= n_samples_fit'')"
    by (simp add: failing_at_def)
  have t0: "fit_predict (failing_at (Suc 0) 0) = None"
    "trial_loss ''nc-cpp'' (failing_at (Suc 0) 0) = Finite (1 / 2)"
    by (simp_all add: failing_at_def fit_predict_with_loss trial_loss_with_loss)
  have j: "best_model_json ''knn'' ''nc-cpp'' (failing_at (Suc 0) 0) =
      [(''n_neighbors'', PInt 1), (''weights'', PBool False), (''p'', PInt 1),
       (''n_jobs'', PInt 8), (''model'', PStr ''knn'')]"
    by (simp add: best_model_json_def build_model_def sample_config_def REGRESSION_TASKS_def
        failing_at_def trial_with_loss_def)
  show ?thesis
    using raising_trial_ends_search[OF sup k ok bad, of "''nc-cpp''" "[''logs'']"
        "\<lparr>counter = 0, prev_loss = PosInf, dumps = []\<rparr>"]
    by (simp add: optimize_def optim_objective_returns[OF sup] t0 j improve_def)
qed

text \<open>
  The claim as stated fails: with a first trial that raises, the search ends with that
  exception after one trial, although the second trial would have returned the loss 1/2.
\<close>

theorem raising_trial_is_not_penalized_counterexample:
  "run_hpo ''knn'' ''nc-cpp'' [''logs''] (failing_at 0) \<lparr>counter = 0, prev_loss = PosInf, dumps = []\<rparr> =
     (Some (ValueError ''Expected n_neighbors <= n_samples_fit''),
      \<lparr>counter = 1, prev_loss = PosInf, dumps = []\<rparr>)
   \<and> fit_predict (failing_at 0 1) = None
   \<and> trial_loss ''nc-cpp'' (failing_at 0 1) = Finite (1 / 2)"
proof -
  have sup: "''knn'' \<in> set [''svm'', ''rf'', ''xgboost'', ''knn'']" by simp
  have bad: "fit_predict (failing_at 0 0) = Some (ValueError ''Expected n_neighbors <= n_samples_fit'')"
    by (simp add: failing_at_def)
  show ?thesis
    by (simp add: run_hpo_def optimize_def upt_10 optim_objective_raises[OF sup bad])
      (simp add: failing_at_def fit_predict_with_loss trial_loss_with_loss)
qed

section \<open>The trial budgets\<close>






section \<open>What the support-vector search persists\<close>

lemma optim_objective_dumps:
  "dumps (snd (optim_objective model_algorithm task log_dir t st)) = dumps st
   \<or> dumps (snd (optim_objective model_algorithm task log_dir t st)) =
       dumps st @ [(log_dir @ [''best_model.json''], best_model_json model_algorithm task t)]"
  by (simp add: optim_objective_def best_model_json_def Let_def
      split: sum.splits option.splits prod.splits)

lemma run_trials_dumps:
  "\<exists>ws. dumps (snd (run_trials (optim_objective model_algorithm task log_dir) ts st)) = dumps st @ ws
      \<and> set ws \<subseteq> (\<lambda>t. (log_dir @ [''best_model.json''], best_model_json model_algorithm task t)) ` set ts"
proof (induction ts arbitrary: st)
  case Nil
  then show ?case by simp
next
  case (Cons t ts)
  let ?obj = "optim_objective model_algorithm task log_dir"
  let ?w = "\<lambda>t. (log_dir @ [''best_model.json''], best_model_json model_algorithm task t)"
  obtain r st' where r: "?obj t st = (r, st')" by (cases "?obj t st")
  from optim_objective_dumps[of model_algorithm task log_dir t st] r
  obtain w1 where w1: "dumps st' = dumps st @ w1" "set w1 \<subseteq> {?w t}"
    by auto
  show ?case
  proof (cases r)
    case (Inl e)
    with r w1 show ?thesis by auto
  next
    case (Inr l)
    from Cons.IH[of st'] obtain ws where
      ws: "dumps (snd (run_trials ?obj ts st')) = dumps st' @ ws" "set ws \<subseteq> ?w ` set ts"
      by blast
    have "dumps (snd (run_trials ?obj (t # ts) st)) = dumps st @ (w1 @ ws)"
      using r Inr ws(1) w1(1) by simp
    moreover have "set (w1 @ ws) \<subseteq> ?w ` set (t # ts)"
      using w1(2) ws(2) by auto
    ultimately show ?thesis by blast
  qed
qed

lemma run_hpo_new_dumps:
  assumes "w \<in> set (drop (length (dumps st)) (dumps (snd (run_hpo model_algorithm task log_dir oracle st))))"
  shows "\<exists>i<10. w = (log_dir @ [''best_model.json''], best_model_json model_algorithm task (oracle i))"
proof -
  from run_trials_dumps[of model_algorithm task log_dir "map oracle [0..<10]"
      "st\<lparr>counter := 0, prev_loss := PosInf\<rparr>"]
  obtain ws where
    ws: "dumps (snd (run_hpo model_algorithm task log_dir oracle st)) = dumps st @ ws"
      "set ws \<subseteq> (\<lambda>t. (log_dir @ [''best_model.json''], best_model_json model_algorithm task t))
          ` set (map oracle [0..<10])"
    by (auto simp: run_hpo_def optimize_def)
  from assms ws(1) have "w \<in> set ws" by simp
  with ws(2) obtain t where t: "t \<in> set (map oracle [0..<10])"
    "w = (log_dir @ [''best_model.json''], best_model_json model_algorithm task t)"
    by blast
  from t(1) obtain i where "i < 10" "t = oracle i" by auto
  with t(2) show ?thesis by blast
qed

lemma best_model_json_svm_classification:
  assumes "task \<notin> set REGRESSION_TASKS"
  shows "best_model_json ''svm'' task t =
           [(''kernel'', PStr ''linear''), (''C'', PFloat (suggest_float t ''C'')),
            (''max_iter'', PInt 1000000), (''model'', PStr ''svm'')]"
  using assms by (simp add: best_model_json_def build_model_def sample_config_def dict_del_def)

lemma best_model_json_svm_regression:
  assumes "task \<in> set REGRESSION_TASKS"
  shows "best_model_json ''svm'' task t =
           [(''kernel'', PStr ''linear''), (''C'', PFloat (suggest_float t ''C'')),
            (''epsilon'', PFloat (suggest_float t ''epsilon'')),
            (''max_iter'', PInt 1000000), (''model'', PStr ''svm'')]"
  using assms by (simp add: best_model_json_def build_model_def sample_config_def)

text \<open>
  Claim C10. For a task that is not a regression task, the support-vector branch builds the
  classifier from a dict without \<^verbatim>\<open>epsilon\<close>, and every \<^verbatim>\<open>best_model.json\<close> that the
  search writes has no such key. For a regression task every one it writes has the key,
  with the value that one of the ten trials proposed.
\<close>

theorem svm_epsilon_only_for_regression:
  "(task \<notin> set REGRESSION_TASKS \<longrightarrow>
      (\<exists>c. build_model ''svm'' task (sample_config ''svm'' t) = Inr ((SVC, c), c)
           \<and> map_of c ''epsilon'' = None)
      \<and> (\<forall>w \<in> set (drop (length (dumps st)) (dumps (snd (run_hpo ''svm'' task log_dir oracle st)))).
            fst w = log_dir @ [''best_model.json''] \<and> map_of (snd w) ''epsilon'' = None))
   \<and> (task \<in> set REGRESSION_TASKS \<longrightarrow>
      (\<forall>w \<in> set (drop (length (dumps st)) (dumps (snd (run_hpo ''svm'' task log_dir oracle st)))).
            fst w = log_dir @ [''best_model.json'']
            \<and> (\<exists>i<10. map_of (snd w) ''epsilon'' = Some (PFloat (suggest_float (oracle i) ''epsilon'')))))"
proof (intro conjI impI ballI)
  assume "task \<notin> set REGRESSION_TASKS"
  then show "\<exists>c. build_model ''svm'' task (sample_config ''svm'' t) = Inr ((SVC, c), c)
           \<and> map_of c ''epsilon'' = None"
    by (simp add: build_model_def sample_config_def dict_del_def)
next
  fix w
  assume c: "task \<notin> set REGRESSION_TASKS"
    and w: "w \<in> set (drop (length (dumps st)) (dumps (snd (run_hpo ''svm'' task log_dir oracle st))))"
  from run_hpo_new_dumps[OF w] obtain i where
    "w = (log_dir @ [''best_model.json''], best_model_json ''svm'' task (oracle i))" by blast
  then show "fst w = log_dir @ [''best_model.json'']" "map_of (snd w) ''epsilon'' = None"
    by (simp_all add: best_model_json_svm_classification[OF c])
next
  fix w
  assume r: "task \<in> set REGRESSION_TASKS"
    and w: "w \<in> set (drop (length (dumps st)) (dumps (snd (run_hpo ''svm'' task log_dir oracle st))))"
  from run_hpo_new_dumps[OF w] obtain i where
    i: "i < 10" "w = (log_dir @ [''best_model.json''], best_model_json ''svm'' task (oracle i))" by blast
  then show "fst w = log_dir @ [''best_model.json'']" by simp
  from i show "\<exists>i<10. map_of (snd w) ''epsilon'' = Some (PFloat (suggest_float (oracle i) ''epsilon''))"
    by (auto simp: best_model_json_svm_regression[OF r])
qed

lemma run_trials_returns:
  assumes "model_algorithm \<in> set [''svm'', ''rf'', ''xgboost'', ''knn'']"
      and "fit_predict t = None"
  shows "run_trials (optim_objective model_algorithm task log_dir) (t # ts) st =
         run_trials (optim_objective model_algorithm task log_dir) ts
           (st\<lparr>counter := counter st + 1,
               prev_loss := improve (prev_loss st) (trial_loss task t),
               dumps := dumps st @
                 (if float_lt (trial_loss task t) (prev_loss st)
                  then [(log_dir @ [''best_model.json''], best_model_json model_algorithm task t)]
                  else [])\<rparr>)"
  by (simp add: optim_objective_returns[OF assms])

theorem svm_epsilon_only_for_regression_witness:
  "map (\<lambda>w. map_of (snd w) ''epsilon'')
      (dumps (snd (run_hpo ''svm'' ''c-sol'' [''logs''] (oracle_of [1/2])
         \<lparr>counter = 0, prev_loss = PosInf, dumps = []\<rparr>))) = [None]
   \<and> map (\<lambda>w. map_of (snd w) ''epsilon'')
      (dumps (snd (run_hpo ''svm'' ''nc-cpp'' [''logs''] (oracle_of [1/2])
         \<lparr>counter = 0, prev_loss = PosInf, dumps = []\<rparr>))) = [Some (PFloat 0)]"
proof -
  have sup: "''svm'' \<in> set [''svm'', ''rf'', ''xgboost'', ''knn'']" by simp
  have c: "''c-sol'' \<notin> set REGRESSION_TASKS" and r: "''nc-cpp'' \<in> set REGRESSION_TASKS"
    by (simp_all add: REGRESSION_TASKS_def)
  have fp: "fit_predict (oracle_of [1/2] i) = None" for i
    by (simp add: oracle_of_def fit_predict_with_loss)
  have l0: "trial_loss task (oracle_of [1/2] 0) = Finite (1/2)" for task
    by (simp add: oracle_of_def trial_loss_with_loss)
  have l: "0 < i \<Longrightarrow> trial_loss task (oracle_of [1/2] i) = Finite 1" for i task
    by (simp add: oracle_of_def trial_loss_with_loss)
  note step = run_trials_returns[OF sup fp]
  have d: "dumps (snd (run_hpo ''svm'' task [''logs''] (oracle_of [1/2])
         \<lparr>counter = 0, prev_loss = PosInf, dumps = []\<rparr>)) =
       [([''logs'', ''best_model.json''], best_model_json ''svm'' task (oracle_of [1/2] 0))]" for task
    by (simp add: run_hpo_def optimize_def upt_10 step l0 l improve_def del: run_trials.simps(2))
  have e: "suggest_float (oracle_of [1/2] 0) ''epsilon'' = 0"
    by (simp add: oracle_of_def trial_with_loss_def)
  note inst = svm_epsilon_only_for_regression[of _ "oracle_of [1/2] 0"
      "\<lparr>counter = 0, prev_loss = PosInf, dumps = []\<rparr>" "[''logs'']" "oracle_of [1/2]"]
  from inst[of "''c-sol''"] c
  have "map_of (best_model_json ''svm'' ''c-sol'' (oracle_of [1/2] 0)) ''epsilon'' = None"
    by (simp add: d)
  moreover have "map_of (best_model_json ''svm'' ''nc-cpp'' (oracle_of [1/2] 0)) ''epsilon''
      = Some (PFloat 0)"
    by (simp add: best_model_json_svm_regression[OF r] e)
  ultimately show ?thesis by (simp add: d)
qed

section \<open>Selecting metrics\<close>

lemma get_metrics_loop_registered:
  assumes "set names \<subseteq> dom (map_of (metrics self))"
  shows "\<exists>m'. get_metrics_loop self names m = Inr m'
            \<and> map_of (metrics m') =
                (\<lambda>k. if k \<in> set names then map_of (metrics self) k else map_of (metrics m) k)
            \<and> multilabel m' = multilabel m \<and> token m' = token m"
  using assms
proof (induction names arbitrary: m)
  case Nil
  then show ?case by simp
next
  case (Cons name names)
  then obtain f where f: "map_of (metrics self) name = Some f" and rest: "set names \<subseteq> dom (map_of (metrics self))"
    by auto
  from Cons.IH[OF rest, of "add_metric m name f"] obtain m' where
    m': "get_metrics_loop self names (add_metric m name f) = Inr m'"
        "map_of (metrics m') =
           (\<lambda>k. if k \<in> set names then map_of (metrics self) k else map_of (metrics (add_metric m name f)) k)"
        "multilabel m' = multilabel (add_metric m name f)" "token m' = token (add_metric m name f)"
    by blast
  have "map_of (metrics m') =
          (\<lambda>k. if k \<in> set (name # names) then map_of (metrics self) k else map_of (metrics m) k)"
    using m'(2) f by (auto simp: add_metric_def update_conv' fun_eq_iff)
  then show ?case
    using m' f by (simp add: add_metric_def)
qed

lemma get_metrics_loop_unknown:
  assumes "\<not> set names \<subseteq> dom (map_of (metrics self))"
  shows "\<exists>pre name post. names = pre @ name # post
            \<and> set pre \<subseteq> dom (map_of (metrics self))
            \<and> map_of (metrics self) name = None
            \<and> get_metrics_loop self names m = Inl (ValueError (''Metric: '' @ name @ '' not supported.''))"
  using assms
proof (induction names arbitrary: m)
  case Nil
  then show ?case by simp
next
  case (Cons n names)
  show ?case
  proof (cases "map_of (metrics self) n")
    case None
    then have "n # names = [] @ n # names \<and> set [] \<subseteq> dom (map_of (metrics self))
        \<and> map_of (metrics self) n = None
        \<and> get_metrics_loop self (n # names) m = Inl (ValueError (''Metric: '' @ n @ '' not supported.''))"
      by simp
    then show ?thesis by blast
  next
    case (Some f)
    with Cons.prems have "\<not> set names \<subseteq> dom (map_of (metrics self))" by auto
    from Cons.IH[OF this, of "add_metric m n f"] obtain pre name post where
      p: "names = pre @ name # post" "set pre \<subseteq> dom (map_of (metrics self))"
         "map_of (metrics self) name = None"
         "get_metrics_loop self names (add_metric m n f) = Inl (ValueError (''Metric: '' @ name @ '' not supported.''))"
      by blast
    have "n # names = (n # pre) @ name # post \<and> set (n # pre) \<subseteq> dom (map_of (metrics self))
        \<and> map_of (metrics self) name = None
        \<and> get_metrics_loop self (n # names) m = Inl (ValueError (''Metric: '' @ name @ '' not supported.''))"
      using p Some by auto
    then show ?thesis by blast
  qed
qed

text \<open>
  Claim C8. When every requested name is registered, \<^verbatim>\<open>get_metrics\<close> returns an object
  whose metrics are exactly the requested names, each bound to the registry's function, with
  the two flags as given. Otherwise it raises the ValueError that names the first requested
  name that is not registered (the error the specification calls UnknownMetric); it returns
  no object, partial or default.
\<close>

theorem get_metrics_all_or_error:
  "(set names \<subseteq> dom (map_of (metrics self)) \<longrightarrow>
      (\<exists>m. get_metrics self names ml tok = Inr m
           \<and> fst ` set (metrics m) = set names
           \<and> (\<forall>n\<in>set names. map_of (metrics m) n = map_of (metrics self) n)
           \<and> multilabel m = ml \<and> token m = tok))
   \<and> (\<not> set names \<subseteq> dom (map_of (metrics self)) \<longrightarrow>
      (\<exists>pre name post. names = pre @ name # post
           \<and> set pre \<subseteq> dom (map_of (metrics self))
           \<and> map_of (metrics self) name = None
           \<and> get_metrics self names ml tok = Inl (ValueError (''Metric: '' @ name @ '' not supported.''))))"
proof (intro conjI impI)
  assume a: "set names \<subseteq> dom (map_of (metrics self))"
  let ?m0 = "Metrics_init\<lparr>multilabel := ml, token := tok\<rparr> :: 'a Metrics"
  from get_metrics_loop_registered[OF a, of ?m0]
  obtain m where m0: "get_metrics_loop self names ?m0 = Inr m"
    "map_of (metrics m) = (\<lambda>k. if k \<in> set names then map_of (metrics self) k else map_of (metrics ?m0) k)"
    "multilabel m = multilabel ?m0" "token m = token ?m0"
    by blast
  have m: "get_metrics self names ml tok = Inr m"
    "map_of (metrics m) = (\<lambda>k. if k \<in> set names then map_of (metrics self) k else None)"
    "multilabel m = ml" "token m = tok"
    using m0 by (simp_all add: get_metrics_def Metrics_init_def cong: if_cong)
  have "dom (map_of (metrics m)) = set names"
    using a by (auto simp: m(2) split: if_splits)
  then have "fst ` set (metrics m) = set names"
    by (simp add: dom_map_of_conv_image_fst)
  with m show "\<exists>m. get_metrics self names ml tok = Inr m
           \<and> fst ` set (metrics m) = set names
           \<and> (\<forall>n\<in>set names. map_of (metrics m) n = map_of (metrics self) n)
           \<and> multilabel m = ml \<and> token m = tok"
    by simp
next
  assume "\<not> set names \<subseteq> dom (map_of (metrics self))"
  from get_metrics_loop_unknown[OF this]
  show "\<exists>pre name post. names = pre @ name # post
           \<and> set pre \<subseteq> dom (map_of (metrics self))
           \<and> map_of (metrics self) name = None
           \<and> get_metrics self names ml tok = Inl (ValueError (''Metric: '' @ name @ '' not supported.''))"
    by (simp add: get_metrics_def)
qed

theorem get_metrics_all_or_error_witness:
  "get_metrics registry [''rmse'', ''acc''] False True =
     Inr \<lparr>metrics = [(''rmse'', 3), (''acc'', 1)], multilabel = False, token = True\<rparr>
   \<and> get_metrics registry [''acc'', ''f1'', ''mse''] False False =
     Inl (ValueError ''Metric: f1 not supported.'')"
proof -
  have a: "set [''rmse'', ''acc''] \<subseteq> dom (map_of (metrics registry))"
    by (simp add: registry_def)
  have b: "\<not> set [''acc'', ''f1'', ''mse''] \<subseteq> dom (map_of (metrics registry))"
    by (simp add: registry_def)
  from get_metrics_all_or_error[of "[''rmse'', ''acc'']" registry False True] a
  obtain m where m: "get_metrics registry [''rmse'', ''acc''] False True = Inr m"
    "multilabel m = False" "token m = True"
    by blast
  have c: "metrics m = [(''rmse'', 3), (''acc'', 1)]"
    using m(1) by (auto simp: get_metrics_def registry_def Metrics_init_def add_metric_def)
  from get_metrics_all_or_error[of "[''acc'', ''f1'', ''mse'']" registry False False] b
  obtain pre name post where
    p: "[''acc'', ''f1'', ''mse''] = pre @ name # post" "set pre \<subseteq> dom (map_of (metrics registry))"
       "map_of (metrics registry) name = None"
       "get_metrics registry [''acc'', ''f1'', ''mse''] False False =
          Inl (ValueError (''Metric: '' @ name @ '' not supported.''))"
    by blast
  have "name = ''f1''"
    using p(4) by (simp add: get_metrics_def registry_def Metrics_init_def add_metric_def)
  with p(4) m c show ?thesis by (cases m) simp
qed

section \<open>The log directory of the neural search\<close>





section \<open>The store of protein representations\<close>

lemma batched_Nil: "batched n [] = []"
  by (simp add: batched.simps)

lemma batched_single:
  assumes "0 < n" "xs \<noteq> []" "length xs \<le> n"
  shows "batched n xs = [xs]"
  using assms by (subst batched.simps) (simp add: batched_Nil)

lemma represent_proteins_stores:
  "store (snd (represent_proteins encoder sequences data_path task st))
      (data_path @ [''prot_'' @ task @ ''.json''])
     = Some (fst (represent_proteins encoder sequences data_path task st))"
  by (simp add: represent_proteins_def Let_def split: option.splits)

lemma represent_proteins_hit:
  assumes "store st (data_path @ [''prot_'' @ task @ ''.json'']) = Some reprs"
  shows "represent_proteins encoder sequences data_path task st = (reprs, st)"
  using assms by (simp add: represent_proteins_def)

lemma represent_proteins_loads:
  "encoder_loads (snd (represent_proteins encoder sequences data_path task st)) =
     (if store st (data_path @ [''prot_'' @ task @ ''.json'']) = None
      then encoder_loads st + 1 else encoder_loads st)"
  by (simp add: represent_proteins_def Let_def split: option.splits)

lemma fold_represent_proteins_hit:
  assumes "store st (data_path @ [''prot_'' @ task @ ''.json'']) = Some reprs"
  shows "fold (\<lambda>(enc, seqs) s. snd (represent_proteins enc seqs data_path task s)) calls st = st"
  using assms by (induction calls) (auto simp: represent_proteins_hit)

text \<open>
  Claim C6. When the file of the task exists, \<^verbatim>\<open>represent_proteins\<close> returns what it holds
  and changes nothing: the encoder is not loaded and the sequences are not read. After any
  call, a second call for the same directory and task, whatever its sequences, returns the
  same vectors and leaves the state as it is. Over any number of calls for one directory
  and task the encoder is loaded at most once.
\<close>

theorem protein_store_is_read_not_recomputed:
  "(store st (data_path @ [''prot_'' @ task @ ''.json'']) = Some reprs \<longrightarrow>
      represent_proteins encoder sequences data_path task st = (reprs, st))
   \<and> represent_proteins encoder' sequences' data_path task
        (snd (represent_proteins encoder sequences data_path task st))
      = (fst (represent_proteins encoder sequences data_path task st),
         snd (represent_proteins encoder sequences data_path task st))
   \<and> encoder_loads (fold (\<lambda>(enc, seqs) s. snd (represent_proteins enc seqs data_path task s)) calls st)
       \<le> encoder_loads st + 1"
proof (intro conjI impI)
  assume "store st (data_path @ [''prot_'' @ task @ ''.json'']) = Some reprs"
  then show "represent_proteins encoder sequences data_path task st = (reprs, st)"
    by (rule represent_proteins_hit)
next
  show "represent_proteins encoder' sequences' data_path task
        (snd (represent_proteins encoder sequences data_path task st))
      = (fst (represent_proteins encoder sequences data_path task st),
         snd (represent_proteins encoder sequences data_path task st))"
    by (rule represent_proteins_hit[OF represent_proteins_stores])
next
  show "encoder_loads (fold (\<lambda>(enc, seqs) s. snd (represent_proteins enc seqs data_path task s)) calls st)
       \<le> encoder_loads st + 1"
  proof (cases calls)
    case Nil
    then show ?thesis by simp
  next
    case (Cons c cs)
    obtain enc seqs where c: "c = (enc, seqs)" by (cases c)
    let ?st1 = "snd (represent_proteins enc seqs data_path task st)"
    have "fold (\<lambda>(enc, seqs) s. snd (represent_proteins enc seqs data_path task s)) calls st
        = fold (\<lambda>(enc, seqs) s. snd (represent_proteins enc seqs data_path task s)) cs ?st1"
      using Cons c by simp
    also have "\<dots> = ?st1"
      by (rule fold_represent_proteins_hit[OF represent_proteins_stores])
    finally show ?thesis
      by (simp add: represent_proteins_loads)
  qed
qed

theorem protein_store_is_read_not_recomputed_witness:
  "represent_proteins toy_encoder [''AC''] [''data''] ''c-binding''
       \<lparr>store = [[''data'', ''prot_c-binding.json''] \<mapsto> [Vec [7, 8]]], encoder_loads = 0\<rparr>
     = ([Vec [7, 8]],
        \<lparr>store = [[''data'', ''prot_c-binding.json''] \<mapsto> [Vec [7, 8]]], encoder_loads = 0\<rparr>)
   \<and> represent_proteins toy_encoder [''AC''] [''data''] ''c-binding''
       \<lparr>store = Map.empty, encoder_loads = 0\<rparr>
     = ([Vec [1 / 2]],
        \<lparr>store = [[''data'', ''prot_c-binding.json''] \<mapsto> [Vec [1 / 2]]], encoder_loads = 1\<rparr>)
   \<and> represent_proteins (\<lambda>batch i. []) [''MKV'', ''G''] [''data''] ''c-binding''
       \<lparr>store = [[''data'', ''prot_c-binding.json''] \<mapsto> [Vec [1 / 2]]], encoder_loads = 1\<rparr>
     = ([Vec [1 / 2]],
        \<lparr>store = [[''data'', ''prot_c-binding.json''] \<mapsto> [Vec [1 / 2]]], encoder_loads = 1\<rparr>)"
proof -
  let ?hit = "\<lparr>store = [[''data'', ''prot_c-binding.json''] \<mapsto> [Vec [7, 8]]], encoder_loads = 0\<rparr>"
  let ?st0 = "\<lparr>store = Map.empty :: path \<Rightarrow> repr list option, encoder_loads = 0 :: nat\<rparr>"
  have h: "store ?hit ([''data''] @ [''prot_'' @ ''c-binding'' @ ''.json'']) = Some [Vec [7, 8]]"
    by simp
  note 1 = protein_store_is_read_not_recomputed[of ?hit "[''data'']" "''c-binding''" "[Vec [7, 8]]"
      toy_encoder "[''AC'']", THEN conjunct1, THEN mp, OF h]
  have b: "batched 16 [''AC''] = [[''AC'']]"
    by (simp add: batched_single)
  have e: "toy_encoder [''AC''] 0 = [[0], [1], [2], [3]]"
    by (simp add: toy_encoder_def upt_rec)
  have p: "pool_protein ''AC'' [[0], [1], [2], [3]] = Vec [1 / 2]"
    by (simp add: pool_protein_def mean0_def)
  have 2: "represent_proteins toy_encoder [''AC''] [''data''] ''c-binding'' ?st0
     = ([Vec [1 / 2]],
        \<lparr>store = [[''data'', ''prot_c-binding.json''] \<mapsto> [Vec [1 / 2]]], encoder_loads = 1\<rparr>)"
    by (simp add: represent_proteins_def Let_def b e p)
  note 3 = protein_store_is_read_not_recomputed[of ?st0 "[''data'']" "''c-binding''" "[]"
      toy_encoder "[''AC'']" "\<lambda>batch i. []" "[''MKV'', ''G'']", THEN conjunct2, THEN conjunct1]
  from 1 2 3 show ?thesis by simp
qed

section \<open>Pooling over token positions\<close>

lemma filter_zip_replicate_same:
  "length v = k \<Longrightarrow> map snd (filter (\<lambda>(m, x). m = a) (zip (replicate k a) v)) = v"
proof (induction k arbitrary: v)
  case 0
  then show ?case by simp
next
  case (Suc k)
  then obtain x xs where "v = x # xs" "length xs = k" by (cases v) auto
  with Suc.IH[of xs] show ?case by simp
qed

lemma filter_zip_replicate_other:
  "a \<noteq> b \<Longrightarrow> filter (\<lambda>(m, x). m = a) (zip (replicate p b) v) = []"
proof (induction p arbitrary: v)
  case 0
  then show ?case by simp
next
  case (Suc p)
  then show ?case by (cases v) auto
qed

text \<open>
  The peptide encoders pool over the valid positions: on a row whose mask is \<open>k\<close> ones
  followed by padding, the mean over the first \<open>k\<close> positions is the mean over the positions
  with mask 1.
\<close>

lemma pool_peptide_right_padded:
  assumes "length vector_i = k + p"
  shows "pool_peptide (replicate k 1 @ replicate p 0) vector_i
       = masked_mean (replicate k 1 @ replicate p 0) vector_i"
proof -
  have z: "zip (replicate k (1::nat) @ replicate p 0) vector_i
      = zip (replicate k 1) (take k vector_i) @ zip (replicate p 0) (drop k vector_i)"
    using assms by (simp add: zip_append1)
  have "map snd (filter (\<lambda>(m, x). m = 1) (zip (replicate k (1::nat) @ replicate p 0) vector_i))
      = take k vector_i"
    unfolding z using assms
    by (simp add: filter_zip_replicate_same filter_zip_replicate_other)
  then show ?thesis
    by (simp add: pool_peptide_def masked_mean_def sum_list_replicate)
qed

text \<open>
  Claim C7 at a protein of two residues. Its row has four valid positions (the first and the
  last for the tokenizer's own tokens), here with the hidden states 0, 1, 2, 3. The protein
  path takes as many positions as the string has characters and returns the mean of 0 and
  1; the mean over the valid positions is 3/2, which is what the peptide path returns on
  the same row.
\<close>

theorem protein_pooling_misses_valid_positions:
  "fst (represent_proteins toy_encoder [''AC''] [''data''] ''nc-binding''
          \<lparr>store = Map.empty, encoder_loads = 0\<rparr>) = [Vec [1 / 2]]
   \<and> masked_mean [1, 1, 1, 1] (toy_encoder [''AC''] 0) = Vec [3 / 2]
   \<and> lm_fingerprints \<lparr>attention_mask = (\<lambda>batch i. [1, 1, 1, 1]), last_hidden_state = toy_encoder\<rparr>
        8 [''AC''] = [Vec [3 / 2]]"
proof -
  have b: "batched n [''AC''] = [[''AC'']]" if "0 < n" for n
    using that by (simp add: batched_single)
  have e: "toy_encoder [''AC''] 0 = [[0], [1], [2], [3]]"
    by (simp add: toy_encoder_def upt_rec)
  have p: "pool_protein ''AC'' [[0], [1], [2], [3]] = Vec [1 / 2]"
    by (simp add: pool_protein_def mean0_def)
  have 1: "fst (represent_proteins toy_encoder [''AC''] [''data''] ''nc-binding''
          \<lparr>store = Map.empty, encoder_loads = 0\<rparr>) = [Vec [1 / 2]]"
    by (simp add: represent_proteins_def Let_def b e p)
  have 2: "masked_mean [1, 1, 1, 1] [[0], [1], [2], [3]] = Vec [3 / 2]"
    by (simp add: masked_mean_def mean0_def)
  have 3: "pool_peptide [1, 1, 1, 1] [[0], [1], [2], [3]] = Vec [3 / 2]"
    by (simp add: pool_peptide_def mean0_def)
  have 4: "lm_fingerprints \<lparr>attention_mask = (\<lambda>batch i. [1, 1, 1, 1]), last_hidden_state = toy_encoder\<rparr>
        8 [''AC''] = [Vec [3 / 2]]"
    using 3 by (simp add: lm_fingerprints_def b e)
  from 1 2 4 show ?thesis by (simp add: e)
qed

section \<open>Records that do not parse\<close>

lemma str_split_not_Nil: "str_split c s \<noteq> []"
  by (induction s) (auto split: list.splits)
















end
